theory Spec2Isabelle
  imports Main "HOL-Library.Signed_Division" "HOL-Library.Word"
begin

section \<open>Time utilities (\<^verbatim>\<open>utils/timeUtils.h\<close>, \<^verbatim>\<open>utils/timeUtils.cpp\<close>)\<close>

text \<open>
  \<^verbatim>\<open>timeUtils\<close> re-exports the Boost date-time types. A \<^verbatim>\<open>time_duration\<close> is a signed
  count of ticks (microseconds in the default configuration), a \<^verbatim>\<open>date\<close> is a day number
  of the proleptic Gregorian calendar, and a \<^verbatim>\<open>ptime\<close> is a count of ticks since the
  start of day number 0. The special values of the library (not-a-date-time and the two
  infinities) are not part of the model: every duration, date and instant below is an
  ordinary one. Tick counts are mathematical integers; the code only compares them and
  divides them by positive constants, so no wrap-around can occur.
\<close>

type_synonym time_duration = int
type_synonym date = int
type_synonym ptime = int

definition ticks_per_second :: int where
  "ticks_per_second = 1000000"

definition seconds :: "int \<Rightarrow> time_duration" where
  "seconds n = n * ticks_per_second"

definition minutes :: "int \<Rightarrow> time_duration" where
  "minutes n = n * 60 * ticks_per_second"

definition hours :: "int \<Rightarrow> time_duration" where
  "hours n = n * 3600 * ticks_per_second"

definition days :: "int \<Rightarrow> int" where
  "days n = n"

text \<open>
  The field accessors of a duration divide as C++ does, truncating towards zero
  (\<open>sdiv\<close>, \<open>smod\<close>): \<^verbatim>\<open>hours()\<close> is the whole number of hours, \<^verbatim>\<open>minutes()\<close> and
  \<^verbatim>\<open>seconds()\<close> are the normalised minute and second fields.
\<close>

definition td_hours :: "time_duration \<Rightarrow> int" where
  "td_hours d = d sdiv (3600 * ticks_per_second)"

definition td_minutes :: "time_duration \<Rightarrow> int" where
  "td_minutes d = (d sdiv (60 * ticks_per_second)) smod 60"

definition td_seconds :: "time_duration \<Rightarrow> int" where
  "td_seconds d = (d sdiv ticks_per_second) smod 60"

definition ticks_per_day :: int where
  "ticks_per_day = 86400 * ticks_per_second"

text \<open>
  \<^verbatim>\<open>ptime(d, tod)\<close> builds an instant from a date and a time of day; \<^verbatim>\<open>t.date()\<close> and
  \<^verbatim>\<open>t.time_of_day()\<close> take it apart again.
\<close>

definition ptime_of :: "date \<Rightarrow> time_duration \<Rightarrow> ptime" where
  "ptime_of d tod = d * ticks_per_day + tod"

definition date_of :: "ptime \<Rightarrow> date" where
  "date_of t = t div ticks_per_day"

definition time_of_day :: "ptime \<Rightarrow> time_duration" where
  "time_of_day t = t mod ticks_per_day"

text \<open>
  The day number of a calendar date \<^verbatim>\<open>date(year, month, day)\<close>, by the Gregorian
  calendar's standard formula (the one the library's calendar uses).
\<close>

definition day_number :: "int \<Rightarrow> int \<Rightarrow> int \<Rightarrow> date" where
  "day_number year month day =
     (let a = (14 - month) div 12;
          y = year + 4800 - a;
          m = month + 12 * a - 3
      in day + (153 * m + 2) div 5 + 365 * y + y div 4 - y div 100 + y div 400 - 32045)"

text \<open>
  \<^verbatim>\<open>getDatesRange(const date &start, const date &end)\<close>: the loop
  \<^verbatim>\<open>while (currentDate < end) { datesRange.push_back(currentDate); currentDate += days(1); }\<close>
  with the vector built so far as the accumulator.
\<close>

function getDatesRange_loop :: "date \<Rightarrow> date \<Rightarrow> date list \<Rightarrow> date list" where
  "getDatesRange_loop currentDate end datesRange =
     (if currentDate < end
      then getDatesRange_loop (currentDate + days 1) end (datesRange @ [currentDate])
      else datesRange)"
  by pat_completeness auto
termination
  by (relation "measure (\<lambda>(currentDate, end, datesRange). nat (end - currentDate))")
     (auto simp: days_def)

declare getDatesRange_loop.simps [simp del]

definition getDatesRange :: "date \<Rightarrow> date \<Rightarrow> date list" where
  "getDatesRange start end = getDatesRange_loop start end []"

text \<open>\<^verbatim>\<open>getDatesRange(const ptime &start, const ptime &end)\<close>.\<close>

definition getDatesRange_ptime :: "ptime \<Rightarrow> ptime \<Rightarrow> date list" where
  "getDatesRange_ptime start end =
     (let startDate = date_of start;
          endDate = date_of end
      in getDatesRange startDate endDate)"

section \<open>Bars (\<^verbatim>\<open>dataStructs/bar.h\<close>, \<^verbatim>\<open>dataStructs/bar.cpp\<close>)\<close>

text \<open>The two standard exceptions the code throws, each with its message.\<close>

datatype exception = invalid_argument string | logic_error string

subsection \<open>BarSize\<close>

record BarSize =
  barSize_field :: time_duration  \<comment> \<open>the member \<^verbatim>\<open>barSize_\<close>\<close>

definition validateBarSize :: "time_duration \<Rightarrow> exception + unit" where
  "validateBarSize barSize =
     (if barSize > hours 24
      then Inl (invalid_argument ''barSize must be less than 24 hours.'')
      else Inr ())"

text \<open>The constructor \<^verbatim>\<open>BarSize(time_duration)\<close> and the copy constructor: both validate.\<close>

definition BarSize_of_duration :: "time_duration \<Rightarrow> exception + BarSize" where
  "BarSize_of_duration barSize =
     (case validateBarSize barSize of
        Inl e \<Rightarrow> Inl e
      | Inr _ \<Rightarrow> Inr \<lparr>barSize_field = barSize\<rparr>)"

definition BarSize_copy :: "BarSize \<Rightarrow> exception + BarSize" where
  "BarSize_copy barSize =
     (case validateBarSize (barSize_field barSize) of
        Inl e \<Rightarrow> Inl e
      | Inr _ \<Rightarrow> Inr \<lparr>barSize_field = barSize_field barSize\<rparr>)"

text \<open>The comparison operators against a duration, then against another BarSize.\<close>

definition lt_duration :: "BarSize \<Rightarrow> time_duration \<Rightarrow> bool" where
  "lt_duration b duration = (barSize_field b < duration)"

definition le_duration :: "BarSize \<Rightarrow> time_duration \<Rightarrow> bool" where
  "le_duration b duration = (barSize_field b \<le> duration)"

definition gt_duration :: "BarSize \<Rightarrow> time_duration \<Rightarrow> bool" where
  "gt_duration b duration = (barSize_field b > duration)"

definition ge_duration :: "BarSize \<Rightarrow> time_duration \<Rightarrow> bool" where
  "ge_duration b duration = (barSize_field b \<ge> duration)"

definition eq_duration :: "BarSize \<Rightarrow> time_duration \<Rightarrow> bool" where
  "eq_duration b duration = (barSize_field b = duration)"

definition lt_BarSize :: "BarSize \<Rightarrow> BarSize \<Rightarrow> bool" where
  "lt_BarSize b other = (barSize_field b < barSize_field other)"

definition le_BarSize :: "BarSize \<Rightarrow> BarSize \<Rightarrow> bool" where
  "le_BarSize b other = (barSize_field b \<le> barSize_field other)"

definition gt_BarSize :: "BarSize \<Rightarrow> BarSize \<Rightarrow> bool" where
  "gt_BarSize b other = (barSize_field b > barSize_field other)"

definition ge_BarSize :: "BarSize \<Rightarrow> BarSize \<Rightarrow> bool" where
  "ge_BarSize b other = (barSize_field b \<ge> barSize_field other)"

definition eq_BarSize :: "BarSize \<Rightarrow> BarSize \<Rightarrow> bool" where
  "eq_BarSize b other = (barSize_field b = barSize_field other)"

text \<open>\<^verbatim>\<open>std::to_string\<close> on a signed integer: decimal digits, a minus sign when negative.\<close>

definition digit_char :: "nat \<Rightarrow> char" where
  "digit_char n = ''0123456789'' ! n"

function to_string_nat :: "nat \<Rightarrow> string" where
  "to_string_nat n =
     (if n < 10 then [digit_char n]
      else to_string_nat (n div 10) @ [digit_char (n mod 10)])"
  by pat_completeness auto
termination
  by (relation "measure (\<lambda>n. n)") auto

declare to_string_nat.simps [simp del]

definition to_string :: "int \<Rightarrow> string" where
  "to_string i = (if i < 0 then CHR ''-'' # to_string_nat (nat (- i)) else to_string_nat (nat i))"

definition toString :: "BarSize \<Rightarrow> string" where
  "toString b =
     (if barSize_field b = seconds 1 then ''1 sec''
      else if barSize_field b < minutes 1 then to_string (td_seconds (barSize_field b)) @ '' secs''
      else if barSize_field b = minutes 1 then ''1 min''
      else if barSize_field b < hours 1 then to_string (td_minutes (barSize_field b)) @ '' mins''
      else if barSize_field b = hours 1 then ''1 hour''
      else if barSize_field b < hours 24 then to_string (td_hours (barSize_field b)) @ '' hours''
      else ''1 day'')"

text \<open>The string concatenation operators.\<close>

definition plus_string :: "BarSize \<Rightarrow> string \<Rightarrow> string" where
  "plus_string b other = toString b @ other"

definition string_plus :: "string \<Rightarrow> BarSize \<Rightarrow> string" where
  "string_plus first second = first @ toString second"

definition string_plus_assign :: "string \<Rightarrow> BarSize \<Rightarrow> string" where
  "string_plus_assign first second = string_plus first second"

subsection \<open>The comparisons that \<^verbatim>\<open>bar.h\<close> makes available\<close>

text \<open>
  \<^verbatim>\<open>bar.h\<close> declares the ten comparison operators as members of \<^verbatim>\<open>BarSize\<close>, so the left
  operand of each is a BarSize. The constructor from a duration is \<^verbatim>\<open>explicit\<close> and the
  class has no conversion to a duration, so neither operand is converted. A comparison
  expression is therefore resolved by the types of its two operands: a declared member
  operator, the library's own comparison of two durations, or no operator at all (the
  expression does not compile, \<open>None\<close>). The language standard matters in one place:
  from C++20 on, \<^verbatim>\<open>d == b\<close> with a duration on the left is rewritten to \<^verbatim>\<open>b == d\<close>; the
  four ordering operators have no such rewriting without \<^verbatim>\<open>operator<=>\<close>.
\<close>

datatype relop = Less | LessEq | Greater | GreaterEq | Equal

datatype operand = Duration time_duration | Size BarSize

fun duration_relop :: "relop \<Rightarrow> time_duration \<Rightarrow> time_duration \<Rightarrow> bool" where
  "duration_relop Less x y = (x < y)"
| "duration_relop LessEq x y = (x \<le> y)"
| "duration_relop Greater x y = (x > y)"
| "duration_relop GreaterEq x y = (x \<ge> y)"
| "duration_relop Equal x y = (x = y)"

fun member_duration :: "relop \<Rightarrow> BarSize \<Rightarrow> time_duration \<Rightarrow> bool" where
  "member_duration Less b d = lt_duration b d"
| "member_duration LessEq b d = le_duration b d"
| "member_duration Greater b d = gt_duration b d"
| "member_duration GreaterEq b d = ge_duration b d"
| "member_duration Equal b d = eq_duration b d"

fun member_BarSize :: "relop \<Rightarrow> BarSize \<Rightarrow> BarSize \<Rightarrow> bool" where
  "member_BarSize Less b other = lt_BarSize b other"
| "member_BarSize LessEq b other = le_BarSize b other"
| "member_BarSize Greater b other = gt_BarSize b other"
| "member_BarSize GreaterEq b other = ge_BarSize b other"
| "member_BarSize Equal b other = eq_BarSize b other"

fun comparison :: "bool \<Rightarrow> relop \<Rightarrow> operand \<Rightarrow> operand \<Rightarrow> bool option" where
  "comparison cxx20 rel (Size b) (Duration d) = Some (member_duration rel b d)"
| "comparison cxx20 rel (Size b) (Size other) = Some (member_BarSize rel b other)"
| "comparison cxx20 rel (Duration x) (Duration y) = Some (duration_relop rel x y)"
| "comparison cxx20 rel (Duration d) (Size b) =
     (if cxx20 \<and> rel = Equal then Some (member_duration Equal b d) else None)"

subsection \<open>Bar and BarData\<close>

text \<open>
  A \<^verbatim>\<open>double\<close> is carried as its 64-bit pattern: the code stores and copies the price
  fields and never computes with them. \<^verbatim>\<open>long long\<close> and \<^verbatim>\<open>int\<close> are 64-bit and 32-bit
  words.
\<close>

record Bar =
  dateTime :: ptime
  high :: "64 word"
  low :: "64 word"
  "open" :: "64 word"
  close :: "64 word"
  wap :: "64 word"
  volume :: "64 word"
  count :: "32 word"

text \<open>
  \<^verbatim>\<open>BarData\<close> holds a \<^verbatim>\<open>std::map<ptime, Bar>\<close>, a finite map keyed by the timestamp, and the
  bar size of the series.
\<close>

record BarData =
  bars :: "ptime \<rightharpoonup> Bar"
  series_barSize :: BarSize  \<comment> \<open>the member \<^verbatim>\<open>barSize_\<close>\<close>

text \<open>
  The two constructors. Each initialises the member \<^verbatim>\<open>barSize_\<close> through a constructor of
  \<^verbatim>\<open>BarSize\<close>, which validates and may throw; the map starts empty.
\<close>

definition BarData_of_duration :: "time_duration \<Rightarrow> exception + BarData" where
  "BarData_of_duration barSize =
     (case BarSize_of_duration barSize of
        Inl e \<Rightarrow> Inl e
      | Inr b \<Rightarrow> Inr \<lparr>bars = Map.empty, series_barSize = b\<rparr>)"

definition BarData_of_BarSize :: "BarSize \<Rightarrow> exception + BarData" where
  "BarData_of_BarSize barSize =
     (case BarSize_copy barSize of
        Inl e \<Rightarrow> Inl e
      | Inr b \<Rightarrow> Inr \<lparr>bars = Map.empty, series_barSize = b\<rparr>)"

text \<open>\<^verbatim>\<open>bars[bar.dateTime] = bar\<close>: insert the key if absent, then overwrite its value.\<close>

definition addBar :: "Bar \<Rightarrow> BarData \<Rightarrow> BarData" where
  "addBar bar d = d\<lparr>bars := (bars d)(dateTime bar \<mapsto> bar)\<rparr>"

definition size_BarData :: "BarData \<Rightarrow> nat" where
  "size_BarData d = card (dom (bars d))"

definition barSize_BarData :: "BarData \<Rightarrow> BarSize" where
  "barSize_BarData d = series_barSize d"

section \<open>Historical retrieval (\<^verbatim>\<open>HistoricalRetriever.h\<close>, \<^verbatim>\<open>HistoricalRetriever.cpp\<close>)\<close>

text \<open>
  Both functions of this file have a non-void return type and a path on which control
  reaches the closing brace without a \<^verbatim>\<open>return\<close> statement. The third outcome records
  that: the call neither returns a value of its type nor throws.
\<close>

datatype 'a outcome = Returned 'a | Thrown exception | NoReturn

text \<open>
  \<^verbatim>\<open>getFilePaths\<close>: for a bar size of at least 24 hours the path of the daily file is
  pushed onto the local vector, and the function ends without returning it; for a finer
  bar size it throws.
\<close>

definition getFilePaths :: "string \<Rightarrow> ptime \<Rightarrow> ptime \<Rightarrow> BarSize \<Rightarrow> string list outcome" where
  "getFilePaths symbol startDateTime endDateTime barSize =
     (let paths = [];
          basePath = ''../histData/'' @ symbol @ ''/''
      in if ge_duration barSize (hours 24)
         then (let paths = paths @ [basePath @ ''daily.csv''] in NoReturn)
         else Thrown (logic_error
                ''Retrieving intraday historical bar data is not yer implemented.''))"

text \<open>\<^verbatim>\<open>retrieveBarData\<close>: the body is empty.\<close>

definition retrieveBarData ::
  "string \<Rightarrow> ptime \<Rightarrow> ptime \<Rightarrow> BarSize \<Rightarrow> bool \<Rightarrow> bool \<Rightarrow> bool \<Rightarrow> BarData outcome" where
  "retrieveBarData symbol startDateTime endDateTime barSize
                   includeAfterHours searchCache storeToCache = NoReturn"

definition throws :: "'a outcome \<Rightarrow> bool" where
  "throws r = (case r of Thrown e \<Rightarrow> True | _ \<Rightarrow> False)"

definition returns :: "'a outcome \<Rightarrow> bool" where
  "returns r = (case r of Returned v \<Rightarrow> True | _ \<Rightarrow> False)"

section \<open>The specification's wording, for comparison\<close>

text \<open>
  The number of calendar days that the half-open range \<open>[start, end)\<close> of instants
  spans: the days from the date of its first instant to the date of its last one
  (\<open>end - 1\<close> tick), and none when the range is empty.
\<close>

definition spec_calendarDaysSpanned :: "ptime \<Rightarrow> ptime \<Rightarrow> nat" where
  "spec_calendarDaysSpanned start end =
     (if start < end then nat (date_of (end - 1) - date_of start + 1) else 0)"

text \<open>
  The display form as the specification words it: the count of whole seconds below one
  minute, of whole minutes below one hour, of whole hours below 24 hours, ``1 day''
  otherwise; the unit word is singular exactly when the count is 1.
\<close>

definition spec_unit_label :: "int \<Rightarrow> string \<Rightarrow> string" where
  "spec_unit_label n unit = to_string n @ '' '' @ unit @ (if n = 1 then [] else ''s'')"

definition spec_canonicalLabel :: "time_duration \<Rightarrow> string" where
  "spec_canonicalLabel d =
     (if d < minutes 1 then spec_unit_label (d div seconds 1) ''sec''
      else if d < hours 1 then spec_unit_label (d div minutes 1) ''min''
      else if d < hours 24 then spec_unit_label (d div hours 1) ''hour''
      else ''1 day'')"

section \<open>Construction of a BarSize\<close>

lemma validateBarSize_ok: "barSize \<le> hours 24 \<Longrightarrow> validateBarSize barSize = Inr ()"
  by (simp add: validateBarSize_def)

lemma validateBarSize_throws:
  "hours 24 < barSize \<Longrightarrow>
   validateBarSize barSize = Inl (invalid_argument ''barSize must be less than 24 hours.'')"
  by (simp add: validateBarSize_def)

lemma BarSize_of_duration_ok:
  "barSize \<le> hours 24 \<Longrightarrow> BarSize_of_duration barSize = Inr \<lparr>barSize_field = barSize\<rparr>"
  by (simp add: BarSize_of_duration_def validateBarSize_ok)

lemma BarSize_of_duration_throws:
  "hours 24 < barSize \<Longrightarrow>
   BarSize_of_duration barSize = Inl (invalid_argument ''barSize must be less than 24 hours.'')"
  by (simp add: BarSize_of_duration_def validateBarSize_throws)

text \<open>
  Claim C4. For every duration \<open>d\<close> with \<open>0 < d \<le> 24h\<close>, constructing a BarSize from \<open>d\<close>
  succeeds and the resulting BarSize compares equal to \<open>d\<close>; for every duration
  \<open>d > 24h\<close>, construction fails with the invalid-bar-size error
  (\<^verbatim>\<open>std::invalid_argument\<close>).
\<close>

theorem BarSize_construct_roundtrip:
  "(0 < d \<and> d \<le> hours 24 \<longrightarrow>
      (\<exists>b. BarSize_of_duration d = Inr b \<and> eq_duration b d \<and> barSize_field b = d)) \<and>
   (hours 24 < d \<longrightarrow>
      BarSize_of_duration d = Inl (invalid_argument ''barSize must be less than 24 hours.''))"
  by (simp add: BarSize_of_duration_ok BarSize_of_duration_throws eq_duration_def)

theorem BarSize_construct_roundtrip_witness:
  "(0 < minutes 5 \<and> minutes 5 \<le> hours 24 \<and>
      (\<exists>b. BarSize_of_duration (minutes 5) = Inr b \<and> eq_duration b (minutes 5))) \<and>
   (hours 24 < hours 25 \<and>
      BarSize_of_duration (hours 25) = Inl (invalid_argument ''barSize must be less than 24 hours.''))"
proof -
  have small: "0 < minutes 5 \<and> minutes 5 \<le> hours 24"
    by (simp add: minutes_def hours_def ticks_per_second_def)
  have large: "hours 24 < hours 25"
    by (simp add: hours_def ticks_per_second_def)
  from small BarSize_construct_roundtrip [of "minutes 5"]
  have "\<exists>b. BarSize_of_duration (minutes 5) = Inr b \<and> eq_duration b (minutes 5)"
    by blast
  moreover from large BarSize_construct_roundtrip [of "hours 25"]
  have "BarSize_of_duration (hours 25) =
          Inl (invalid_argument ''barSize must be less than 24 hours.'')"
    by blast
  ultimately show ?thesis
    using small large by blast
qed

text \<open>
  Claim C9. For every duration \<open>d \<le> 0\<close>, constructing a BarSize from \<open>d\<close> succeeds:
  construction checks the upper bound only, and fails exactly when \<open>d > 24h\<close>.
\<close>

theorem BarSize_construct_nonpositive:
  "(d \<le> 0 \<longrightarrow> BarSize_of_duration d = Inr \<lparr>barSize_field = d\<rparr>) \<and>
   ((\<exists>e. BarSize_of_duration d = Inl e) \<longleftrightarrow> hours 24 < d)"
proof -
  have pos: "0 \<le> hours 24"
    by (simp add: hours_def ticks_per_second_def)
  have neg: "d \<le> 0 \<longrightarrow> BarSize_of_duration d = Inr \<lparr>barSize_field = d\<rparr>"
    using pos by (simp add: BarSize_of_duration_ok)
  have exact: "(\<exists>e. BarSize_of_duration d = Inl e) \<longleftrightarrow> hours 24 < d"
  proof (cases "hours 24 < d")
    case True
    then show ?thesis by (simp add: BarSize_of_duration_throws)
  next
    case False
    then show ?thesis by (simp add: BarSize_of_duration_ok)
  qed
  from neg exact show ?thesis by simp
qed

theorem BarSize_construct_nonpositive_witness:
  "seconds (- 5) \<le> 0 \<and> BarSize_of_duration (seconds (- 5)) = Inr \<lparr>barSize_field = seconds (- 5)\<rparr> \<and>
   BarSize_of_duration 0 = Inr \<lparr>barSize_field = 0\<rparr>"
  using BarSize_construct_nonpositive [of "seconds (- 5)"] BarSize_construct_nonpositive [of 0]
  by (simp add: seconds_def ticks_per_second_def)

section \<open>Comparison operators\<close>

lemma BarSize_of_duration_wraps:
  "BarSize_of_duration x = Inr b \<Longrightarrow> barSize_field b = x"
  by (auto simp: BarSize_of_duration_def validateBarSize_def split: if_splits)

lemma member_duration_delegates:
  "member_duration rel b d = duration_relop rel (barSize_field b) d"
  by (cases rel)
     (simp_all add: lt_duration_def le_duration_def gt_duration_def ge_duration_def
        eq_duration_def)

lemma member_BarSize_delegates:
  "member_BarSize rel b c = duration_relop rel (barSize_field b) (barSize_field c)"
  by (cases rel)
     (simp_all add: lt_BarSize_def le_BarSize_def gt_BarSize_def ge_BarSize_def
        eq_BarSize_def)

text \<open>
  Claim C8, as stated: a BarSize can take the place of a duration in any relational
  comparison, in both operand positions. With a duration on the left, \<open>1h < 2h\<close> is a
  comparison of two durations and holds; putting the BarSize of two hours in the right
  operand's place leaves no operator to call, under either language standard.
\<close>

theorem BarSize_right_operand_counterexample:
  "comparison False Less (Duration (hours 1))
     (Duration (barSize_field \<lparr>barSize_field = hours 2\<rparr>)) = Some True \<and>
   comparison False Less (Duration (hours 1)) (Size \<lparr>barSize_field = hours 2\<rparr>) = None \<and>
   comparison True Less (Duration (hours 1)) (Size \<lparr>barSize_field = hours 2\<rparr>) = None"
  by (simp add: hours_def ticks_per_second_def)

text \<open>
  Claim C8, amended. For every BarSize \<open>b\<close> and duration \<open>d\<close>, each of the five comparisons
  with \<open>b\<close> as the left operand and \<open>d\<close> as the right one gives the result of comparing
  the wrapped duration of \<open>b\<close> against \<open>d\<close>, and each comparison of two BarSizes gives
  the result of comparing their wrapped durations: a BarSize can take the place of a
  duration as the left operand against a duration, and in both positions when the other
  operand is a BarSize too. A BarSize built from a duration \<open>x\<close> compares as \<open>x\<close> does
  there. With a duration on the left and a BarSize on the right no operator exists,
  except for \<open>==\<close> from C++20 on, which is the member \<open>==\<close> with the operands exchanged.
\<close>

theorem BarSize_comparisons_delegate:
  "((lt_duration b d \<longleftrightarrow> barSize_field b < d) \<and>
    (le_duration b d \<longleftrightarrow> barSize_field b \<le> d) \<and>
    (gt_duration b d \<longleftrightarrow> barSize_field b > d) \<and>
    (ge_duration b d \<longleftrightarrow> barSize_field b \<ge> d) \<and>
    (eq_duration b d \<longleftrightarrow> barSize_field b = d)) \<and>
   ((lt_BarSize b c \<longleftrightarrow> barSize_field b < barSize_field c) \<and>
    (le_BarSize b c \<longleftrightarrow> barSize_field b \<le> barSize_field c) \<and>
    (gt_BarSize b c \<longleftrightarrow> barSize_field b > barSize_field c) \<and>
    (ge_BarSize b c \<longleftrightarrow> barSize_field b \<ge> barSize_field c) \<and>
    (eq_BarSize b c \<longleftrightarrow> barSize_field b = barSize_field c)) \<and>
   (BarSize_of_duration x = Inr b \<longrightarrow>
      (lt_duration b d \<longleftrightarrow> x < d) \<and> (le_duration b d \<longleftrightarrow> x \<le> d) \<and>
      (gt_duration b d \<longleftrightarrow> x > d) \<and> (ge_duration b d \<longleftrightarrow> x \<ge> d) \<and>
      (eq_duration b d \<longleftrightarrow> x = d)) \<and>
   (BarSize_of_duration x = Inr b \<and> BarSize_of_duration y = Inr c \<longrightarrow>
      (lt_BarSize b c \<longleftrightarrow> x < y) \<and> (le_BarSize b c \<longleftrightarrow> x \<le> y) \<and>
      (gt_BarSize b c \<longleftrightarrow> x > y) \<and> (ge_BarSize b c \<longleftrightarrow> x \<ge> y) \<and>
      (eq_BarSize b c \<longleftrightarrow> x = y)) \<and>
   comparison cxx20 rel (Size b) (Duration d) =
     comparison cxx20 rel (Duration (barSize_field b)) (Duration d) \<and>
   comparison cxx20 rel (Size b) (Size c) =
     comparison cxx20 rel (Duration (barSize_field b)) (Duration (barSize_field c)) \<and>
   (BarSize_of_duration x = Inr b \<longrightarrow>
      comparison cxx20 rel (Size b) (Duration d) = comparison cxx20 rel (Duration x) (Duration d)) \<and>
   (BarSize_of_duration x = Inr b \<and> BarSize_of_duration y = Inr c \<longrightarrow>
      comparison cxx20 rel (Size b) (Size c) = comparison cxx20 rel (Duration x) (Duration y)) \<and>
   comparison cxx20 rel (Duration d) (Size b) =
     (if cxx20 \<and> rel = Equal then Some (barSize_field b = d) else None)"
proof -
  have members: "(lt_duration b d \<longleftrightarrow> barSize_field b < d) \<and>
      (le_duration b d \<longleftrightarrow> barSize_field b \<le> d) \<and>
      (gt_duration b d \<longleftrightarrow> barSize_field b > d) \<and>
      (ge_duration b d \<longleftrightarrow> barSize_field b \<ge> d) \<and>
      (eq_duration b d \<longleftrightarrow> barSize_field b = d)"
    by (simp add: lt_duration_def le_duration_def gt_duration_def ge_duration_def
        eq_duration_def)
  have sizes: "(lt_BarSize b c \<longleftrightarrow> barSize_field b < barSize_field c) \<and>
      (le_BarSize b c \<longleftrightarrow> barSize_field b \<le> barSize_field c) \<and>
      (gt_BarSize b c \<longleftrightarrow> barSize_field b > barSize_field c) \<and>
      (ge_BarSize b c \<longleftrightarrow> barSize_field b \<ge> barSize_field c) \<and>
      (eq_BarSize b c \<longleftrightarrow> barSize_field b = barSize_field c)"
    by (simp add: lt_BarSize_def le_BarSize_def gt_BarSize_def ge_BarSize_def
        eq_BarSize_def)
  have built: "BarSize_of_duration x = Inr b \<longrightarrow>
      (lt_duration b d \<longleftrightarrow> x < d) \<and> (le_duration b d \<longleftrightarrow> x \<le> d) \<and>
      (gt_duration b d \<longleftrightarrow> x > d) \<and> (ge_duration b d \<longleftrightarrow> x \<ge> d) \<and>
      (eq_duration b d \<longleftrightarrow> x = d)"
    using members by (auto dest!: BarSize_of_duration_wraps)
  have built2: "BarSize_of_duration x = Inr b \<and> BarSize_of_duration y = Inr c \<longrightarrow>
      (lt_BarSize b c \<longleftrightarrow> x < y) \<and> (le_BarSize b c \<longleftrightarrow> x \<le> y) \<and>
      (gt_BarSize b c \<longleftrightarrow> x > y) \<and> (ge_BarSize b c \<longleftrightarrow> x \<ge> y) \<and>
      (eq_BarSize b c \<longleftrightarrow> x = y)"
    using sizes by (auto dest!: BarSize_of_duration_wraps)
  have left: "comparison cxx20 rel (Size b) (Duration d) =
      comparison cxx20 rel (Duration (barSize_field b)) (Duration d)"
    by (simp add: member_duration_delegates)
  have both: "comparison cxx20 rel (Size b) (Size c) =
      comparison cxx20 rel (Duration (barSize_field b)) (Duration (barSize_field c))"
    by (simp add: member_BarSize_delegates)
  have left_built: "BarSize_of_duration x = Inr b \<longrightarrow>
      comparison cxx20 rel (Size b) (Duration d) = comparison cxx20 rel (Duration x) (Duration d)"
    by (auto simp: member_duration_delegates dest!: BarSize_of_duration_wraps)
  have both_built: "BarSize_of_duration x = Inr b \<and> BarSize_of_duration y = Inr c \<longrightarrow>
      comparison cxx20 rel (Size b) (Size c) = comparison cxx20 rel (Duration x) (Duration y)"
    by (auto simp: member_BarSize_delegates dest!: BarSize_of_duration_wraps)
  have right: "comparison cxx20 rel (Duration d) (Size b) =
      (if cxx20 \<and> rel = Equal then Some (barSize_field b = d) else None)"
    by (simp add: eq_duration_def)
  from members sizes built built2 left both left_built both_built right show ?thesis
    by blast
qed

theorem BarSize_comparisons_delegate_witness:
  "BarSize_of_duration (hours 2) = Inr \<lparr>barSize_field = hours 2\<rparr> \<and>
   BarSize_of_duration (hours 4) = Inr \<lparr>barSize_field = hours 4\<rparr> \<and>
   gt_duration \<lparr>barSize_field = hours 2\<rparr> (hours 1) \<and>
   ge_duration \<lparr>barSize_field = hours 2\<rparr> (hours 2) \<and>
   le_duration \<lparr>barSize_field = hours 2\<rparr> (hours 2) \<and>
   lt_duration \<lparr>barSize_field = hours 2\<rparr> (hours 4) \<and>
   \<not> eq_duration \<lparr>barSize_field = hours 2\<rparr> (hours 4) \<and>
   lt_BarSize \<lparr>barSize_field = hours 2\<rparr> \<lparr>barSize_field = hours 4\<rparr> \<and>
   \<not> ge_BarSize \<lparr>barSize_field = hours 2\<rparr> \<lparr>barSize_field = hours 4\<rparr> \<and>
   comparison False Less (Size \<lparr>barSize_field = hours 2\<rparr>) (Duration (hours 4)) = Some True \<and>
   comparison False Less (Size \<lparr>barSize_field = hours 2\<rparr>) (Size \<lparr>barSize_field = hours 4\<rparr>) =
     Some True \<and>
   comparison True Equal (Duration (hours 4)) (Size \<lparr>barSize_field = hours 2\<rparr>) = Some False"
proof -
  let ?b = "\<lparr>barSize_field = hours 2\<rparr>"
  let ?c = "\<lparr>barSize_field = hours 4\<rparr>"
  have two: "BarSize_of_duration (hours 2) = Inr ?b"
    by (simp add: BarSize_of_duration_ok hours_def ticks_per_second_def)
  have four: "BarSize_of_duration (hours 4) = Inr ?c"
    by (simp add: BarSize_of_duration_ok hours_def ticks_per_second_def)
  have order: "hours 1 < hours 2" "hours 2 < hours 4"
    by (simp_all add: hours_def ticks_per_second_def)
  note at1 = BarSize_comparisons_delegate [of ?b "hours 1" ?c "hours 2" "hours 4" False Less]
  note at2 = BarSize_comparisons_delegate [of ?b "hours 2" ?c "hours 2" "hours 4" False Less]
  note at4 = BarSize_comparisons_delegate [of ?b "hours 4" ?c "hours 2" "hours 4" False Less]
  note eq4 = BarSize_comparisons_delegate [of ?b "hours 4" ?c "hours 2" "hours 4" True Equal]
  from at1 two order have g1: "gt_duration ?b (hours 1)"
    by simp
  from at2 two have g2: "ge_duration ?b (hours 2) \<and> le_duration ?b (hours 2)"
    by simp
  from at4 two order have g3: "lt_duration ?b (hours 4) \<and> \<not> eq_duration ?b (hours 4)"
    by simp
  from at4 two four order have g4: "lt_BarSize ?b ?c \<and> \<not> ge_BarSize ?b ?c"
    by simp
  from at4 two order
  have g5: "comparison False Less (Size ?b) (Duration (hours 4)) = Some True"
    by simp
  from at4 two four order
  have g6: "comparison False Less (Size ?b) (Size ?c) = Some True"
    by simp
  from eq4 order
  have g7: "comparison True Equal (Duration (hours 4)) (Size ?b) = Some False"
    by simp
  from two four g1 g2 g3 g4 g5 g6 g7 show ?thesis
    by blast
qed

section \<open>The string form of a BarSize\<close>

lemma to_string_nat_digit: "n < 10 \<Longrightarrow> to_string_nat n = [digit_char n]"
  by (simp add: to_string_nat.simps)

lemma to_string_1: "to_string 1 = ''1''"
  by (simp add: to_string_def to_string_nat_digit digit_char_def)

lemma to_string_5: "to_string 5 = ''5''"
  by (simp add: to_string_def to_string_nat_digit digit_char_def)

lemma sdiv_nonneg: "0 \<le> a \<Longrightarrow> 0 < b \<Longrightarrow> a sdiv b = a div (b::int)"
  by (simp add: signed_divide_int_def sgn_if)

lemma smod_nonneg: "0 \<le> a \<Longrightarrow> 0 < b \<Longrightarrow> a smod b = a mod (b::int)"
  by (simp add: signed_modulo_int_def sgn_if)

lemma td_seconds_small:
  assumes "0 \<le> d" "d < minutes 1"
  shows "td_seconds d = d div ticks_per_second"
proof -
  have q: "0 \<le> d div 1000000" using assms by simp
  have "d div 1000000 < 60" using assms by (simp add: minutes_def ticks_per_second_def)
  with q assms show ?thesis
    by (simp add: td_seconds_def ticks_per_second_def sdiv_nonneg smod_nonneg)
qed

lemma td_minutes_small:
  assumes "0 \<le> d" "d < hours 1"
  shows "td_minutes d = d div (60 * ticks_per_second)"
proof -
  have q: "0 \<le> d div 60000000" using assms by simp
  have "d div 60000000 < 60" using assms by (simp add: hours_def ticks_per_second_def)
  with q assms show ?thesis
    by (simp add: td_minutes_def ticks_per_second_def sdiv_nonneg smod_nonneg)
qed

lemma td_hours_nonneg:
  assumes "0 \<le> d"
  shows "td_hours d = d div (3600 * ticks_per_second)"
  using assms by (simp add: td_hours_def ticks_per_second_def sdiv_nonneg)

text \<open>The three concatenations that the repository's own tests check.\<close>

lemma string_operators_examples:
  "plus_string \<lparr>barSize_field = seconds 1\<rparr> '' time '' = ''1 sec time ''"
  "string_plus '' time '' \<lparr>barSize_field = seconds 5\<rparr> = '' time 5 secs''"
  "string_plus_assign '' time '' \<lparr>barSize_field = minutes 5\<rparr> = '' time 5 mins''"
proof -
  show "plus_string \<lparr>barSize_field = seconds 1\<rparr> '' time '' = ''1 sec time ''"
    by (simp add: plus_string_def toString_def)
  have "td_seconds (seconds 5) = 5"
    by (simp add: td_seconds_small seconds_def minutes_def ticks_per_second_def)
  then have "toString \<lparr>barSize_field = seconds 5\<rparr> = ''5 secs''"
    by (simp add: toString_def to_string_5) (simp add: seconds_def minutes_def ticks_per_second_def)
  then show "string_plus '' time '' \<lparr>barSize_field = seconds 5\<rparr> = '' time 5 secs''"
    by (simp add: string_plus_def)
  have "td_minutes (minutes 5) = 5"
    by (simp add: td_minutes_small minutes_def hours_def ticks_per_second_def)
  then have "toString \<lparr>barSize_field = minutes 5\<rparr> = ''5 mins''"
    by (simp add: toString_def to_string_5)
       (simp add: seconds_def minutes_def hours_def ticks_per_second_def)
  then show "string_plus_assign '' time '' \<lparr>barSize_field = minutes 5\<rparr> = '' time 5 mins''"
    by (simp add: string_plus_assign_def string_plus_def)
qed

text \<open>
  Claim C5. In the string form the equality test of each tier comes before its range
  test: a BarSize of exactly one second, one minute or one hour gives the singular
  label. A BarSize of 60 seconds renders as ``1 min'', one of 5 seconds as ``5 secs'',
  one of 24 hours as ``1 day''.
\<close>

theorem toString_examples:
  "map_sum id toString (BarSize_of_duration (seconds 60)) = Inr ''1 min'' \<and>
   map_sum id toString (BarSize_of_duration (seconds 5)) = Inr ''5 secs'' \<and>
   map_sum id toString (BarSize_of_duration (hours 24)) = Inr ''1 day'' \<and>
   toString \<lparr>barSize_field = seconds 60\<rparr> \<noteq> ''60 secs'' \<and>
   toString \<lparr>barSize_field = seconds 1\<rparr> = ''1 sec'' \<and>
   toString \<lparr>barSize_field = minutes 1\<rparr> = ''1 min'' \<and>
   toString \<lparr>barSize_field = hours 1\<rparr> = ''1 hour''"
proof -
  have c60: "BarSize_of_duration (seconds 60) = Inr \<lparr>barSize_field = seconds 60\<rparr>"
    by (simp add: BarSize_of_duration_ok seconds_def hours_def ticks_per_second_def)
  have c5: "BarSize_of_duration (seconds 5) = Inr \<lparr>barSize_field = seconds 5\<rparr>"
    by (simp add: BarSize_of_duration_ok seconds_def hours_def ticks_per_second_def)
  have c24: "BarSize_of_duration (hours 24) = Inr \<lparr>barSize_field = hours 24\<rparr>"
    by (simp add: BarSize_of_duration_ok)
  have s60: "toString \<lparr>barSize_field = seconds 60\<rparr> = ''1 min''"
    by (simp add: toString_def seconds_def minutes_def hours_def ticks_per_second_def)
  have "td_seconds (seconds 5) = 5"
    by (simp add: td_seconds_small seconds_def minutes_def ticks_per_second_def)
  then have s5: "toString \<lparr>barSize_field = seconds 5\<rparr> = ''5 secs''"
    by (simp add: toString_def to_string_5) (simp add: seconds_def minutes_def ticks_per_second_def)
  have h24: "toString \<lparr>barSize_field = hours 24\<rparr> = ''1 day''"
    by (simp add: toString_def seconds_def minutes_def hours_def ticks_per_second_def)
  have s1: "toString \<lparr>barSize_field = seconds 1\<rparr> = ''1 sec''"
    by (simp add: toString_def)
  have m1: "toString \<lparr>barSize_field = minutes 1\<rparr> = ''1 min''"
    by (simp add: toString_def seconds_def minutes_def ticks_per_second_def)
  have h1: "toString \<lparr>barSize_field = hours 1\<rparr> = ''1 hour''"
    by (simp add: toString_def seconds_def minutes_def hours_def ticks_per_second_def)
  from c60 c5 c24 s60 s5 h24 s1 m1 h1 show ?thesis
    by simp
qed

text \<open>
  Claim C6, as stated: the string form of every valid BarSize is the specification's
  canonical label, whose unit word is singular exactly when the count is 1. A BarSize of
  90 seconds refutes it: the count of minutes is 1 and the code renders the plural.
\<close>

theorem toString_plural_counterexample:
  "0 < seconds 90 \<and> seconds 90 \<le> hours 24 \<and>
   BarSize_of_duration (seconds 90) = Inr \<lparr>barSize_field = seconds 90\<rparr> \<and>
   toString \<lparr>barSize_field = seconds 90\<rparr> = ''1 mins'' \<and>
   spec_canonicalLabel (seconds 90) = ''1 min''"
proof -
  have valid: "0 < seconds 90 \<and> seconds 90 \<le> hours 24"
    by (simp add: seconds_def hours_def ticks_per_second_def)
  have built: "BarSize_of_duration (seconds 90) = Inr \<lparr>barSize_field = seconds 90\<rparr>"
    using valid by (simp add: BarSize_of_duration_ok)
  have "td_minutes (seconds 90) = 1"
    by (simp add: td_minutes_small seconds_def hours_def ticks_per_second_def)
  then have code: "toString \<lparr>barSize_field = seconds 90\<rparr> = ''1 mins''"
    by (simp add: toString_def to_string_1) (simp add: seconds_def minutes_def hours_def ticks_per_second_def)
  have spec: "spec_canonicalLabel (seconds 90) = ''1 min''"
    by (simp add: spec_canonicalLabel_def spec_unit_label_def seconds_def minutes_def hours_def
        ticks_per_second_def to_string_1)
  from valid built code spec show ?thesis
    by simp
qed

text \<open>
  Claim C6, amended. For every valid BarSize (\<open>0 < d \<le> 24h\<close>) the string form is the count
  of whole seconds below one minute, of whole minutes from one minute to below one hour,
  of whole hours from one hour to below 24 hours, and ``1 day'' at 24 hours; the unit word
  is singular exactly when the duration is exactly one second, one minute or one hour,
  and plural for every other duration of the tier.
\<close>

theorem toString_tiers:
  assumes "0 < barSize_field b" "barSize_field b \<le> hours 24"
  shows "toString b =
     (if barSize_field b < minutes 1
      then to_string (barSize_field b div ticks_per_second) @
           (if barSize_field b = seconds 1 then '' sec'' else '' secs'')
      else if barSize_field b < hours 1
      then to_string (barSize_field b div (60 * ticks_per_second)) @
           (if barSize_field b = minutes 1 then '' min'' else '' mins'')
      else if barSize_field b < hours 24
      then to_string (barSize_field b div (3600 * ticks_per_second)) @
           (if barSize_field b = hours 1 then '' hour'' else '' hours'')
      else ''1 day'')"
proof -
  let ?d = "barSize_field b"
  have nonneg: "0 \<le> ?d" using assms by simp
  have one_sec: "seconds 1 < minutes 1" "seconds 1 div ticks_per_second = 1"
    by (simp_all add: seconds_def minutes_def ticks_per_second_def)
  have one_min: "minutes 1 < hours 1" "minutes 1 div (60 * ticks_per_second) = 1"
    by (simp_all add: hours_def minutes_def ticks_per_second_def)
  have one_hour: "hours 1 < hours 24" "hours 1 div (3600 * ticks_per_second) = 1"
    by (simp_all add: hours_def ticks_per_second_def)
  consider (s) "?d < minutes 1" | (m) "minutes 1 \<le> ?d" "?d < hours 1"
    | (h) "hours 1 \<le> ?d" "?d < hours 24" | (d) "?d = hours 24"
    using assms by linarith
  then show ?thesis
  proof cases
    case s
    then show ?thesis
      using one_sec by (simp add: toString_def td_seconds_small [OF nonneg] to_string_1)
  next
    case m
    have "?d \<noteq> seconds 1" using m one_sec by simp
    with m show ?thesis
      using one_min by (simp add: toString_def td_minutes_small [OF nonneg] to_string_1)
  next
    case h
    have "?d \<noteq> seconds 1" "\<not> ?d < minutes 1" "?d \<noteq> minutes 1"
      using h one_sec one_min by simp_all
    with h show ?thesis
      using one_hour by (simp add: toString_def td_hours_nonneg [OF nonneg] to_string_1)
  next
    case d
    have "?d \<noteq> seconds 1" "\<not> ?d < minutes 1" "?d \<noteq> minutes 1" "\<not> ?d < hours 1"
      "?d \<noteq> hours 1"
      using d one_sec one_min one_hour by simp_all
    with d show ?thesis
      by (simp add: toString_def)
  qed
qed

theorem toString_tiers_witness:
  "0 < barSize_field \<lparr>barSize_field = seconds 90\<rparr> \<and>
   barSize_field \<lparr>barSize_field = seconds 90\<rparr> \<le> hours 24 \<and>
   toString \<lparr>barSize_field = seconds 90\<rparr> = ''1 mins''"
proof -
  have valid: "0 < barSize_field \<lparr>barSize_field = seconds 90\<rparr>"
    "barSize_field \<lparr>barSize_field = seconds 90\<rparr> \<le> hours 24"
    by (simp_all add: seconds_def hours_def ticks_per_second_def)
  have tier: "\<not> seconds 90 < minutes 1" "seconds 90 < hours 1" "seconds 90 \<noteq> minutes 1"
    "seconds 90 div (60 * ticks_per_second) = 1"
    by (simp_all add: seconds_def minutes_def hours_def ticks_per_second_def)
  from toString_tiers [OF valid] tier valid show ?thesis
    by (simp add: to_string_1)
qed

section \<open>Adding bars to a series\<close>

lemma addBar_bars: "bars (addBar bar d) = (bars d)(dateTime bar \<mapsto> bar)"
  by (simp add: addBar_def)

lemma addBar_twice:
  "dateTime b1 = dateTime b2 \<Longrightarrow> addBar b2 (addBar b1 d) = addBar b2 d"
  by (simp add: addBar_def)

text \<open>
  Claim C7. For all Bars \<open>b1\<close> and \<open>b2\<close> with the same timestamp, adding \<open>b1\<close> and then
  \<open>b2\<close> to a series leaves one Bar at that timestamp, equal to \<open>b2\<close>: the entry of \<open>b1\<close>
  is gone (the series is the one that adding \<open>b2\<close> alone gives), every other timestamp
  keeps its entry, and the size is 1 when the series was empty before.
\<close>

theorem addBar_last_write_wins:
  assumes "dateTime b1 = dateTime b2"
  shows "bars (addBar b2 (addBar b1 d)) (dateTime b2) = Some b2 \<and>
         addBar b2 (addBar b1 d) = addBar b2 d \<and>
         dom (bars (addBar b2 (addBar b1 d))) = insert (dateTime b2) (dom (bars d)) \<and>
         (\<forall>t. t \<noteq> dateTime b2 \<longrightarrow> bars (addBar b2 (addBar b1 d)) t = bars d t) \<and>
         (bars d = Map.empty \<longrightarrow> size_BarData (addBar b2 (addBar b1 d)) = 1)"
proof -
  have same: "addBar b2 (addBar b1 d) = addBar b2 d"
    using assms by (rule addBar_twice)
  have at: "bars (addBar b2 d) (dateTime b2) = Some b2"
    by (simp add: addBar_bars)
  have keys: "dom (bars (addBar b2 d)) = insert (dateTime b2) (dom (bars d))"
    by (simp add: addBar_bars)
  have others: "\<forall>t. t \<noteq> dateTime b2 \<longrightarrow> bars (addBar b2 d) t = bars d t"
    by (simp add: addBar_bars)
  have one: "bars d = Map.empty \<longrightarrow> size_BarData (addBar b2 d) = 1"
    by (simp add: size_BarData_def addBar_bars)
  from same at keys others one show ?thesis
    by simp
qed

theorem addBar_last_write_wins_witness:
  "BarData_of_duration (minutes 5) =
     Inr \<lparr>bars = Map.empty, series_barSize = \<lparr>barSize_field = minutes 5\<rparr>\<rparr> \<and>
   size_BarData
     (addBar \<lparr>dateTime = ptime_of (day_number 2020 4 3) (hours 10), high = 181, low = 178,
              open = 179, close = 180, wap = 179, volume = 12341235, count = 11\<rparr>
        (addBar \<lparr>dateTime = ptime_of (day_number 2020 4 3) (hours 10), high = 180, low = 179,
                 open = 179, close = 179, wap = 179, volume = 12341234, count = 10\<rparr>
           \<lparr>bars = Map.empty, series_barSize = \<lparr>barSize_field = minutes 5\<rparr>\<rparr>)) = 1 \<and>
   bars
     (addBar \<lparr>dateTime = ptime_of (day_number 2020 4 3) (hours 10), high = 181, low = 178,
              open = 179, close = 180, wap = 179, volume = 12341235, count = 11\<rparr>
        (addBar \<lparr>dateTime = ptime_of (day_number 2020 4 3) (hours 10), high = 180, low = 179,
                 open = 179, close = 179, wap = 179, volume = 12341234, count = 10\<rparr>
           \<lparr>bars = Map.empty, series_barSize = \<lparr>barSize_field = minutes 5\<rparr>\<rparr>))
     (ptime_of (day_number 2020 4 3) (hours 10)) =
   Some \<lparr>dateTime = ptime_of (day_number 2020 4 3) (hours 10), high = 181, low = 178,
         open = 179, close = 180, wap = 179, volume = 12341235, count = 11\<rparr>"
proof -
  have "minutes 5 \<le> hours 24"
    by (simp add: minutes_def hours_def ticks_per_second_def)
  then have empty: "BarData_of_duration (minutes 5) =
      Inr \<lparr>bars = Map.empty, series_barSize = \<lparr>barSize_field = minutes 5\<rparr>\<rparr>"
    by (simp add: BarData_of_duration_def BarSize_of_duration_ok)
  let ?t = "ptime_of (day_number 2020 4 3) (hours 10)"
  let ?b1 = "\<lparr>dateTime = ?t, high = 180, low = 179, open = 179, close = 179, wap = 179,
              volume = 12341234, count = 10\<rparr>"
  let ?b2 = "\<lparr>dateTime = ?t, high = 181, low = 178, open = 179, close = 180, wap = 179,
              volume = 12341235, count = 11\<rparr>"
  let ?d = "\<lparr>bars = Map.empty, series_barSize = \<lparr>barSize_field = minutes 5\<rparr>\<rparr>"
  have stamp: "dateTime ?b1 = dateTime ?b2"
    by simp
  have fresh: "bars ?d = Map.empty"
    by simp
  note wins = addBar_last_write_wins [OF stamp, of ?d]
  from wins fresh have one: "size_BarData (addBar ?b2 (addBar ?b1 ?d)) = 1"
    by blast
  from wins have "bars (addBar ?b2 (addBar ?b1 ?d)) (dateTime ?b2) = Some ?b2"
    by blast
  then have last: "bars (addBar ?b2 (addBar ?b1 ?d)) ?t = Some ?b2"
    by simp
  from empty one last show ?thesis
    by blast
qed

section \<open>Ranges of dates\<close>

lemma getDatesRange_loop_upto:
  "getDatesRange_loop c e acc = acc @ [c..e - 1]"
proof (induction c e acc rule: getDatesRange_loop.induct)
  case (1 c e acc)
  show ?case
  proof (cases "c < e")
    case True
    then have "[c..e - 1] = c # [c + 1..e - 1]"
      by (simp add: upto_rec1)
    with True "1" show ?thesis
      by (simp add: getDatesRange_loop.simps [of c e acc] days_def)
  next
    case False
    then show ?thesis
      by (simp add: getDatesRange_loop.simps [of c e acc])
  qed
qed

lemma getDatesRange_upto: "getDatesRange s e = [s..e - 1]"
  by (simp add: getDatesRange_def getDatesRange_loop_upto)

lemma getDatesRange_ptime_upto:
  "getDatesRange_ptime s e = [date_of s..date_of e - 1]"
  by (simp add: getDatesRange_ptime_def getDatesRange_upto)

lemma ticks_per_day_pos: "0 < ticks_per_day"
  by (simp add: ticks_per_day_def ticks_per_second_def)

lemma date_of_ptime_of:
  "0 \<le> tod \<Longrightarrow> tod < ticks_per_day \<Longrightarrow> date_of (ptime_of d tod) = d"
  using ticks_per_day_pos by (simp add: date_of_def ptime_of_def)

lemma time_of_day_ptime_of:
  "0 \<le> tod \<Longrightarrow> tod < ticks_per_day \<Longrightarrow> time_of_day (ptime_of d tod) = tod"
  using ticks_per_day_pos by (simp add: time_of_day_def ptime_of_def)

lemma div_pred_general:
  fixes e T :: int
  assumes T: "0 < T"
  shows "(e - 1) div T = (if e mod T = 0 then e div T - 1 else e div T)"
proof (cases "e mod T = 0")
  case True
  have q: "T * (e div T) = e"
    using True mult_div_mod_eq [of T e] by simp
  have "T * (e div T - 1) + (T - 1) = T * (e div T) - 1"
    by (simp add: right_diff_distrib)
  with q have "e - 1 = T * (e div T - 1) + (T - 1)"
    by simp
  moreover have "0 \<le> T - 1" "T - 1 < T" using T by simp_all
  ultimately have "(e - 1) div T = e div T - 1"
    by (rule int_div_pos_eq)
  with True show ?thesis by simp
next
  case False
  have m: "0 \<le> e mod T" "e mod T < T" using T by simp_all
  have "e - 1 = T * (e div T) + (e mod T - 1)"
    by (simp add: algebra_simps)
  moreover have "0 \<le> e mod T - 1" "e mod T - 1 < T" using m False by linarith+
  ultimately have "(e - 1) div T = e div T"
    by (rule int_div_pos_eq)
  with False show ?thesis by simp
qed

lemma date_of_pred_boundary:
  "time_of_day e = 0 \<Longrightarrow> date_of (e - 1) = date_of e - 1"
  using div_pred_general [OF ticks_per_day_pos, of e] by (simp add: date_of_def time_of_day_def)

lemma date_of_pred_inside:
  "time_of_day e \<noteq> 0 \<Longrightarrow> date_of (e - 1) = date_of e"
  using div_pred_general [OF ticks_per_day_pos, of e] by (simp add: date_of_def time_of_day_def)

lemma date_of_mono: "s \<le> e \<Longrightarrow> date_of s \<le> date_of e"
  using ticks_per_day_pos by (simp add: date_of_def zdiv_mono1)

lemma date_of_less_boundary:
  assumes "s < e" "time_of_day e = 0"
  shows "date_of s < date_of e"
proof -
  from assms(1) have "s \<le> e - 1" by simp
  then have "date_of s \<le> date_of (e - 1)"
    by (rule date_of_mono)
  with date_of_pred_boundary [OF assms(2)] show ?thesis by simp
qed

lemma hd_upto: "i \<le> j \<Longrightarrow> hd [i..j] = i"
  by (simp add: upto_rec1)

lemma last_upto: "i \<le> j \<Longrightarrow> last [i..j] = j"
  by (simp add: upto_rec2)

lemma getDatesRange_ptime_length:
  "length (getDatesRange_ptime s e) = nat (date_of e - date_of s)"
  by (simp add: getDatesRange_ptime_upto)

lemma getDatesRange_ptime_set:
  "set (getDatesRange_ptime s e) = {d. date_of s \<le> d \<and> d < date_of e}"
  by (auto simp: getDatesRange_ptime_upto)

lemma sep10: "date_of (ptime_of (day_number 2010 9 10) 0) = day_number 2010 9 10"
  by (simp add: date_of_ptime_of ticks_per_day_pos)

lemma sep20: "date_of (ptime_of (day_number 2010 9 20) 0) = day_number 2010 9 20"
  by (simp add: date_of_ptime_of ticks_per_day_pos)

lemma sep_numbers:
  "day_number 2010 9 10 = 2455450" "day_number 2010 9 19 = 2455459"
  "day_number 2010 9 20 = 2455460"
  by (simp_all add: day_number_def)

text \<open>
  Claim C3, as stated: whenever \<open>start < end\<close> and the range \<open>[start, end)\<close> spans \<open>N\<close>
  calendar days, the result has \<open>N\<close> dates and begins with the date of \<open>start\<close>. Two
  instants of the same day refute it: from 09:00 to 17:00 on 2010-09-10 the range spans
  one calendar day and the result is empty.
\<close>

theorem getDatesRange_ptime_same_day_counterexample:
  "ptime_of (day_number 2010 9 10) (hours 9) < ptime_of (day_number 2010 9 10) (hours 17) \<and>
   spec_calendarDaysSpanned (ptime_of (day_number 2010 9 10) (hours 9))
                            (ptime_of (day_number 2010 9 10) (hours 17)) = 1 \<and>
   getDatesRange_ptime (ptime_of (day_number 2010 9 10) (hours 9))
                       (ptime_of (day_number 2010 9 10) (hours 17)) = []"
proof -
  let ?s = "ptime_of (day_number 2010 9 10) (hours 9)"
  let ?e = "ptime_of (day_number 2010 9 10) (hours 17)"
  have order: "?s < ?e"
    by (simp add: ptime_of_def hours_def ticks_per_second_def)
  have ds: "date_of ?s = day_number 2010 9 10"
    by (rule date_of_ptime_of) (simp_all add: hours_def ticks_per_day_def ticks_per_second_def)
  have de: "date_of ?e = day_number 2010 9 10"
    by (rule date_of_ptime_of) (simp_all add: hours_def ticks_per_day_def ticks_per_second_def)
  have "time_of_day ?e = hours 17"
    by (rule time_of_day_ptime_of) (simp_all add: hours_def ticks_per_day_def ticks_per_second_def)
  then have "time_of_day ?e \<noteq> 0"
    by (simp add: hours_def ticks_per_second_def)
  then have "date_of (?e - 1) = day_number 2010 9 10"
    using de by (simp add: date_of_pred_inside)
  with order ds have spanned: "spec_calendarDaysSpanned ?s ?e = 1"
    by (simp add: spec_calendarDaysSpanned_def)
  have empty: "getDatesRange_ptime ?s ?e = []"
    using ds de by (simp add: getDatesRange_ptime_upto)
  from order spanned empty show ?thesis
    by blast
qed

text \<open>
  Claim C3, amended. For every pair of instants \<open>start < end\<close> the result is the list of
  the consecutive dates from the date of \<open>start\<close> to the day before the date of \<open>end\<close>,
  in strictly ascending order; the date of \<open>end\<close> is never among them. It is non-empty
  exactly when the date of \<open>start\<close> is before the date of \<open>end\<close>, and then its first
  element is the date of \<open>start\<close> and its last the day before the date of \<open>end\<close>. When
  \<open>end\<close> falls exactly on a day boundary and the range \<open>[start, end)\<close> spans \<open>N\<close> calendar
  days, the result has exactly \<open>N\<close> dates and is non-empty. When \<open>end\<close> is not on a day
  boundary, the result has \<open>N - 1\<close> dates: the last, partial day of the range is left
  out. In particular 2010-09-10 to 2010-09-20 yields 10 dates, the first 2010-09-10, the
  last 2010-09-19.
\<close>

theorem getDatesRange_ptime_day_boundary:
  assumes "start < end"
  shows "getDatesRange_ptime start end = [date_of start..date_of end - days 1] \<and>
         sorted_wrt (<) (getDatesRange_ptime start end) \<and>
         set (getDatesRange_ptime start end) = {d. date_of start \<le> d \<and> d < date_of end} \<and>
         date_of end \<notin> set (getDatesRange_ptime start end) \<and>
         (getDatesRange_ptime start end \<noteq> [] \<longleftrightarrow> date_of start < date_of end) \<and>
         (getDatesRange_ptime start end \<noteq> [] \<longrightarrow>
            hd (getDatesRange_ptime start end) = date_of start \<and>
            last (getDatesRange_ptime start end) = date_of end - days 1) \<and>
         (time_of_day end = 0 \<longrightarrow>
            length (getDatesRange_ptime start end) = spec_calendarDaysSpanned start end \<and>
            getDatesRange_ptime start end \<noteq> [] \<and>
            hd (getDatesRange_ptime start end) = date_of start \<and>
            last (getDatesRange_ptime start end) = date_of end - days 1 \<and>
            date_of end \<notin> set (getDatesRange_ptime start end)) \<and>
         (time_of_day end \<noteq> 0 \<longrightarrow>
            length (getDatesRange_ptime start end) + 1 = spec_calendarDaysSpanned start end) \<and>
         length (getDatesRange_ptime (ptime_of (day_number 2010 9 10) 0)
                                     (ptime_of (day_number 2010 9 20) 0)) = 10 \<and>
         hd (getDatesRange_ptime (ptime_of (day_number 2010 9 10) 0)
                                 (ptime_of (day_number 2010 9 20) 0)) = day_number 2010 9 10 \<and>
         last (getDatesRange_ptime (ptime_of (day_number 2010 9 10) 0)
                                   (ptime_of (day_number 2010 9 20) 0)) = day_number 2010 9 19"
proof -
  have dates: "getDatesRange_ptime start end = [date_of start..date_of end - days 1]"
    by (simp add: getDatesRange_ptime_upto days_def)
  have ascending: "sorted_wrt (<) (getDatesRange_ptime start end)"
    by (simp add: getDatesRange_ptime_upto sorted_wrt_upto)
  have members: "set (getDatesRange_ptime start end) = {d. date_of start \<le> d \<and> d < date_of end}"
    by (rule getDatesRange_ptime_set)
  have excluded: "date_of end \<notin> set (getDatesRange_ptime start end)"
    by (simp add: getDatesRange_ptime_set)
  have nonempty_iff: "getDatesRange_ptime start end \<noteq> [] \<longleftrightarrow> date_of start < date_of end"
    by (auto simp: getDatesRange_ptime_upto)
  have ends: "hd (getDatesRange_ptime start end) = date_of start \<and>
      last (getDatesRange_ptime start end) = date_of end - days 1"
    if "getDatesRange_ptime start end \<noteq> []"
  proof -
    from that nonempty_iff have "date_of start \<le> date_of end - 1"
      by simp
    then show ?thesis
      by (simp add: getDatesRange_ptime_upto hd_upto last_upto days_def)
  qed
  have boundary: "length (getDatesRange_ptime start end) = spec_calendarDaysSpanned start end \<and>
      getDatesRange_ptime start end \<noteq> [] \<and>
      hd (getDatesRange_ptime start end) = date_of start \<and>
      last (getDatesRange_ptime start end) = date_of end - days 1 \<and>
      date_of end \<notin> set (getDatesRange_ptime start end)"
    if midnight: "time_of_day end = 0"
  proof -
    have less: "date_of start < date_of end"
      using assms midnight by (rule date_of_less_boundary)
    have n: "length (getDatesRange_ptime start end) = spec_calendarDaysSpanned start end"
      using assms by (simp add: getDatesRange_ptime_length spec_calendarDaysSpanned_def
          date_of_pred_boundary [OF midnight])
    have nonempty: "getDatesRange_ptime start end \<noteq> []"
      using less nonempty_iff by simp
    from n nonempty ends [OF nonempty] excluded show ?thesis
      by blast
  qed
  have inside: "length (getDatesRange_ptime start end) + 1 = spec_calendarDaysSpanned start end"
    if later: "time_of_day end \<noteq> 0"
  proof -
    have "date_of start \<le> date_of end"
      using assms by (simp add: date_of_mono)
    then show ?thesis
      using assms by (simp add: getDatesRange_ptime_length spec_calendarDaysSpanned_def
          date_of_pred_inside [OF later])
  qed
  have example: "getDatesRange_ptime (ptime_of (day_number 2010 9 10) 0)
                   (ptime_of (day_number 2010 9 20) 0) =
                 [day_number 2010 9 10..day_number 2010 9 20 - 1]"
    by (simp only: getDatesRange_ptime_upto sep10 sep20)
  have ex_length: "length (getDatesRange_ptime (ptime_of (day_number 2010 9 10) 0)
                     (ptime_of (day_number 2010 9 20) 0)) = 10"
    by (simp only: example) (simp add: sep_numbers)
  have ex_hd: "hd (getDatesRange_ptime (ptime_of (day_number 2010 9 10) 0)
                 (ptime_of (day_number 2010 9 20) 0)) = day_number 2010 9 10"
    by (simp only: example) (simp add: hd_upto sep_numbers)
  have ex_last: "last (getDatesRange_ptime (ptime_of (day_number 2010 9 10) 0)
                   (ptime_of (day_number 2010 9 20) 0)) = day_number 2010 9 19"
    by (simp only: example) (simp add: last_upto sep_numbers)
  from dates ascending members excluded nonempty_iff ends boundary inside
    ex_length ex_hd ex_last
  show ?thesis
    by blast
qed

theorem getDatesRange_ptime_day_boundary_witness:
  "ptime_of (day_number 2010 9 10) 0 < ptime_of (day_number 2010 9 20) 0 \<and>
   time_of_day (ptime_of (day_number 2010 9 20) 0) = 0 \<and>
   spec_calendarDaysSpanned (ptime_of (day_number 2010 9 10) 0)
                            (ptime_of (day_number 2010 9 20) 0) = 10 \<and>
   length (getDatesRange_ptime (ptime_of (day_number 2010 9 10) 0)
                               (ptime_of (day_number 2010 9 20) 0)) = 10 \<and>
   ptime_of (day_number 2010 9 10) 0 < ptime_of (day_number 2010 9 20) (hours 12) \<and>
   time_of_day (ptime_of (day_number 2010 9 20) (hours 12)) \<noteq> 0 \<and>
   spec_calendarDaysSpanned (ptime_of (day_number 2010 9 10) 0)
                            (ptime_of (day_number 2010 9 20) (hours 12)) = 11 \<and>
   length (getDatesRange_ptime (ptime_of (day_number 2010 9 10) 0)
                               (ptime_of (day_number 2010 9 20) (hours 12))) = 10 \<and>
   getDatesRange_ptime (ptime_of (day_number 2010 9 10) 0)
                       (ptime_of (day_number 2010 9 20) (hours 12)) \<noteq> [] \<and>
   hd (getDatesRange_ptime (ptime_of (day_number 2010 9 10) 0)
                           (ptime_of (day_number 2010 9 20) (hours 12))) = day_number 2010 9 10 \<and>
   last (getDatesRange_ptime (ptime_of (day_number 2010 9 10) 0)
                             (ptime_of (day_number 2010 9 20) (hours 12))) = day_number 2010 9 19 \<and>
   day_number 2010 9 20 \<notin>
     set (getDatesRange_ptime (ptime_of (day_number 2010 9 10) 0)
                              (ptime_of (day_number 2010 9 20) (hours 12)))"
proof -
  let ?s = "ptime_of (day_number 2010 9 10) 0"
  let ?e = "ptime_of (day_number 2010 9 20) 0"
  let ?n = "ptime_of (day_number 2010 9 20) (hours 12)"
  have o1: "?s < ?e"
    by (simp add: ptime_of_def sep_numbers ticks_per_day_def ticks_per_second_def)
  have o2: "?s < ?n"
    by (simp add: ptime_of_def sep_numbers ticks_per_day_def ticks_per_second_def hours_def)
  have t1: "time_of_day ?e = 0"
    by (simp add: time_of_day_def ptime_of_def)
  have "time_of_day ?n = hours 12"
    by (rule time_of_day_ptime_of) (simp_all add: hours_def ticks_per_day_def ticks_per_second_def)
  then have t2: "time_of_day ?n \<noteq> 0"
    by (simp add: hours_def ticks_per_second_def)
  have dn: "date_of ?n = day_number 2010 9 20"
    by (rule date_of_ptime_of) (simp_all add: hours_def ticks_per_day_def ticks_per_second_def)
  have before: "date_of ?s < date_of ?n"
    by (simp only: sep10 dn) (simp add: sep_numbers)
  note at_e = getDatesRange_ptime_day_boundary [OF o1]
  note at_n = getDatesRange_ptime_day_boundary [OF o2]
  from at_e have l1: "length (getDatesRange_ptime ?s ?e) = 10"
    by blast
  have l2: "length (getDatesRange_ptime ?s ?n) = 10"
    by (simp only: getDatesRange_ptime_length sep10 dn) (simp add: sep_numbers)
  from at_e t1 l1 have n1: "spec_calendarDaysSpanned ?s ?e = 10"
    by simp
  from at_n t2 l2 have n2: "spec_calendarDaysSpanned ?s ?n = 11"
    by simp
  from at_n before have ne: "getDatesRange_ptime ?s ?n \<noteq> []"
    by blast
  from at_n ne have "hd (getDatesRange_ptime ?s ?n) = date_of ?s"
    by blast
  then have first: "hd (getDatesRange_ptime ?s ?n) = day_number 2010 9 10"
    by (simp add: sep10)
  from at_n ne have "last (getDatesRange_ptime ?s ?n) = date_of ?n - days 1"
    by blast
  then have final: "last (getDatesRange_ptime ?s ?n) = day_number 2010 9 19"
    by (simp only: dn days_def) (simp add: sep_numbers)
  from at_n have "date_of ?n \<notin> set (getDatesRange_ptime ?s ?n)"
    by blast
  then have out: "day_number 2010 9 20 \<notin> set (getDatesRange_ptime ?s ?n)"
    by (simp add: dn)
  from o1 t1 n1 l1 o2 t2 n2 l2 ne first final out show ?thesis
    by blast
qed

text \<open>
  Claim C10. On instants, \<open>getDatesRange\<close> depends only on the calendar dates of its two
  arguments: it is \<open>getDatesRange\<close> on those dates, so instants with the same dates give
  the same result. The result holds the dates from the date of \<open>start\<close> up to, and never
  including, the date of \<open>end\<close>, whatever the time of day of \<open>end\<close>; and it is the empty
  list when the date of \<open>start\<close> is not before the date of \<open>end\<close>.
\<close>

theorem getDatesRange_ptime_dates_only:
  "getDatesRange_ptime start end = getDatesRange (date_of start) (date_of end) \<and>
   (date_of start' = date_of start \<and> date_of end' = date_of end \<longrightarrow>
      getDatesRange_ptime start' end' = getDatesRange_ptime start end) \<and>
   set (getDatesRange_ptime start end) = {d. date_of start \<le> d \<and> d < date_of end} \<and>
   date_of end \<notin> set (getDatesRange_ptime start end) \<and>
   (0 < time_of_day end \<longrightarrow> date_of end \<notin> set (getDatesRange_ptime start end)) \<and>
   (date_of end \<le> date_of start \<longrightarrow> getDatesRange_ptime start end = [])"
proof -
  have by_dates: "getDatesRange_ptime start end = getDatesRange (date_of start) (date_of end)"
    by (simp add: getDatesRange_ptime_def)
  have same: "date_of start' = date_of start \<and> date_of end' = date_of end \<longrightarrow>
      getDatesRange_ptime start' end' = getDatesRange_ptime start end"
    by (simp add: getDatesRange_ptime_def)
  have members: "set (getDatesRange_ptime start end) = {d. date_of start \<le> d \<and> d < date_of end}"
    by (rule getDatesRange_ptime_set)
  have excluded: "date_of end \<notin> set (getDatesRange_ptime start end)"
    by (simp add: getDatesRange_ptime_set)
  have empty: "date_of end \<le> date_of start \<longrightarrow> getDatesRange_ptime start end = []"
    by (simp add: getDatesRange_ptime_upto)
  from by_dates same members excluded empty show ?thesis
    by blast
qed

theorem getDatesRange_ptime_dates_only_witness:
  "0 < time_of_day (ptime_of (day_number 2010 9 20) (hours 12)) \<and>
   date_of (ptime_of (day_number 2010 9 20) (hours 12)) = day_number 2010 9 20 \<and>
   day_number 2010 9 20 \<notin>
     set (getDatesRange_ptime (ptime_of (day_number 2010 9 10) (hours 9))
                              (ptime_of (day_number 2010 9 20) (hours 12))) \<and>
   getDatesRange_ptime (ptime_of (day_number 2010 9 10) (hours 9))
                       (ptime_of (day_number 2010 9 20) (hours 12)) =
   getDatesRange_ptime (ptime_of (day_number 2010 9 10) 0) (ptime_of (day_number 2010 9 20) 0) \<and>
   date_of (ptime_of (day_number 2010 9 10) (hours 9)) \<le>
     date_of (ptime_of (day_number 2010 9 10) 0) \<and>
   getDatesRange_ptime (ptime_of (day_number 2010 9 10) 0)
                       (ptime_of (day_number 2010 9 10) (hours 9)) = []"
proof -
  let ?a = "ptime_of (day_number 2010 9 10) (hours 9)"
  let ?n = "ptime_of (day_number 2010 9 20) (hours 12)"
  let ?m = "ptime_of (day_number 2010 9 10) 0"
  let ?e = "ptime_of (day_number 2010 9 20) 0"
  have "time_of_day ?n = hours 12"
    by (rule time_of_day_ptime_of) (simp_all add: hours_def ticks_per_day_def ticks_per_second_def)
  then have t: "0 < time_of_day ?n"
    by (simp add: hours_def ticks_per_second_def)
  have dn: "date_of ?n = day_number 2010 9 20"
    by (rule date_of_ptime_of) (simp_all add: hours_def ticks_per_day_def ticks_per_second_def)
  have da: "date_of ?a = day_number 2010 9 10"
    by (rule date_of_ptime_of) (simp_all add: hours_def ticks_per_day_def ticks_per_second_def)
  have same: "date_of ?a = date_of ?m \<and> date_of ?n = date_of ?e"
    by (simp only: da dn sep10 sep20)
  from getDatesRange_ptime_dates_only [of ?m ?e ?a ?n] same
  have eq: "getDatesRange_ptime ?a ?n = getDatesRange_ptime ?m ?e"
    by blast
  from getDatesRange_ptime_dates_only [of ?a ?n ?a ?n] t
  have "date_of ?n \<notin> set (getDatesRange_ptime ?a ?n)"
    by blast
  then have out: "day_number 2010 9 20 \<notin> set (getDatesRange_ptime ?a ?n)"
    by (simp add: dn)
  have le: "date_of ?a \<le> date_of ?m"
    by (simp add: da sep10)
  from getDatesRange_ptime_dates_only [of ?m ?a ?m ?a] le
  have empty: "getDatesRange_ptime ?m ?a = []"
    by blast
  from t dn out eq le empty show ?thesis
    by blast
qed

section \<open>Retrieval of bar data\<close>

lemma retrieveBarData_NoReturn:
  "retrieveBarData symbol startDateTime endDateTime barSize
     includeAfterHours searchCache storeToCache = NoReturn"
  by (simp add: retrieveBarData_def)

lemma getFilePaths_intraday:
  "lt_duration barSize (hours 24) \<Longrightarrow>
   getFilePaths symbol startDateTime endDateTime barSize =
     Thrown (logic_error ''Retrieving intraday historical bar data is not yer implemented.'')"
  by (simp add: getFilePaths_def lt_duration_def ge_duration_def)

text \<open>
  Claim C1 asks that \<open>retrieveBarData\<close> fail with the not-implemented error for every bar
  size finer than one day, and never return a series for it. The code at such a request
  (``SPY'', 2020-03-30 09:00 to 2020-04-03 16:30, bars of one hour): \<open>retrieveBarData\<close>
  throws nothing and returns nothing, its body being empty, while the helper
  \<open>getFilePaths\<close>, which it never calls, throws the \<^verbatim>\<open>std::logic_error\<close> at the same
  arguments.
\<close>

theorem retrieveBarData_intraday_no_error:
  "lt_duration \<lparr>barSize_field = hours 1\<rparr> (hours 24) \<and>
   retrieveBarData ''SPY'' (ptime_of (day_number 2020 3 30) (hours 9))
     (ptime_of (day_number 2020 4 3) (hours 16 + minutes 30))
     \<lparr>barSize_field = hours 1\<rparr> False True True = NoReturn \<and>
   \<not> throws (retrieveBarData ''SPY'' (ptime_of (day_number 2020 3 30) (hours 9))
     (ptime_of (day_number 2020 4 3) (hours 16 + minutes 30))
     \<lparr>barSize_field = hours 1\<rparr> False True True) \<and>
   \<not> returns (retrieveBarData ''SPY'' (ptime_of (day_number 2020 3 30) (hours 9))
     (ptime_of (day_number 2020 4 3) (hours 16 + minutes 30))
     \<lparr>barSize_field = hours 1\<rparr> False True True) \<and>
   getFilePaths ''SPY'' (ptime_of (day_number 2020 3 30) (hours 9))
     (ptime_of (day_number 2020 4 3) (hours 16 + minutes 30))
     \<lparr>barSize_field = hours 1\<rparr> =
     Thrown (logic_error ''Retrieving intraday historical bar data is not yer implemented.'')"
proof -
  have intraday: "lt_duration \<lparr>barSize_field = hours 1\<rparr> (hours 24)"
    by (simp add: lt_duration_def hours_def ticks_per_second_def)
  from intraday getFilePaths_intraday [OF intraday] show ?thesis
    by (simp add: retrieveBarData_NoReturn throws_def returns_def)
qed






end
